theory Spec2Isabelle
  imports Main "HOL-Library.AList"
begin

section \<open>Data model\<close>

text \<open>
  The development follows \<^verbatim>\<open>colossalai/tensor/d_tensor/d_tensor.py\<close>. A dense tensor of
  the array library is a value carrying the attributes the file reads (\<^verbatim>\<open>shape\<close>,
  \<^verbatim>\<open>dtype\<close>, \<^verbatim>\<open>device\<close>) and its elements as nested lists, one level of
  nesting per dimension.
\<close>

datatype nd = Leaf int | Node "nd list"

datatype dtype = Float32 | Float16 | Int64

datatype device = CPU | CUDA nat

record Tensor =
  shape :: "nat list"
  dtype :: dtype
  device :: device
  elems :: nd

text \<open>
  Modelled from the spec: the class \<^verbatim>\<open>DeviceMesh\<close> is imported from
  \<^verbatim>\<open>colossalai.device.device_mesh\<close>, which is not among the sources. Section 3 has it
  immutable, with the extents of the grid per axis; the file only passes it around by
  reference, so it is a value that carries its identity.
\<close>

record DeviceMesh =
  mesh_id :: nat
  mesh_shape :: "nat list"

text \<open>
  Modelled from the spec: the class \<^verbatim>\<open>ShardingSpec\<close> is imported from
  \<^verbatim>\<open>colossalai.tensor.sharding_spec\<close>, which is not among the sources. Section 3 gives a
  partition spec three attributes, and they are the three keyword arguments of
  \<^verbatim>\<open>ShardingSpec(device_mesh=..., entire_shape=..., dim_partition_dict=...)\<close> in the
  file. The shape is optional because \<^verbatim>\<open>convert_layout_to_sharding_spec\<close> hands over
  \<^verbatim>\<open>layout.entire_shape\<close> as it is, and a layout may still carry \<^verbatim>\<open>None\<close>. The
  partition dictionary maps a logical dimension to the mesh axes that split it, in
  insertion order.
\<close>

record ShardingSpec =
  device_mesh :: DeviceMesh
  entire_shape :: "nat list option"
  dim_partition_dict :: "(nat \<times> nat list) list"

text \<open>
  Modelled from the spec: the class \<^verbatim>\<open>Layout\<close> is imported from
  \<^verbatim>\<open>colossalai.tensor.d_tensor.layout\<close>, which is not among the sources. Section 3 has
  it a partition spec whose shape may be unset; its fields here are the four attributes
  that the file reads or writes. Layout objects are mutable and shared: the constructor of
  \<^verbatim>\<open>DTensor\<close> writes \<^verbatim>\<open>entire_shape\<close> of the caller's object and \<^verbatim>\<open>to\<close>
  writes its \<^verbatim>\<open>device_type\<close>. They therefore live in a store and are held by
  reference.
\<close>

record Layout =
  device_mesh :: DeviceMesh
  device_type :: device
  sharding_spec :: ShardingSpec
  entire_shape :: "nat list option"

type_synonym layout_ref = nat

type_synonym heap = "layout_ref \<Rightarrow> Layout"

text \<open>The attributes \<^verbatim>\<open>__init__\<close> sets on a \<^verbatim>\<open>DTensor\<close>.\<close>

record DTensor =
  local_tensor :: Tensor
  data_type :: dtype
  entire_shape :: "nat list"
  dist_layout :: layout_ref

text \<open>
  Exceptions are values. A call either returns a result or raises; in both cases the
  objects it has mutated so far stay as they are, so both outcomes carry the state.
\<close>

datatype error =
  TypeError | KeyError | RuntimeError | AttributeError
  | InvalidPartitionError | IncompatibleSpecError | CollectiveFailureError

datatype ('a, 's) outcome =
  Return (result: 'a) (post: 's)
  | Raise (exn: error) (post: 's)

text \<open>
  \<^verbatim>\<open>shape_consistency_manager.apply_for_autoparallel_runtime(tensor, source, target)\<close>.
  The manager's class is imported from \<^verbatim>\<open>colossalai.tensor.shape_consistency\<close>, which
  is not among the sources; the functions of the file take the call as a parameter, a
  function of the local tensor and the two specs that may raise.
\<close>

type_synonym planner = "Tensor \<Rightarrow> ShardingSpec \<Rightarrow> ShardingSpec \<Rightarrow> error + Tensor"

section \<open>Spec conversion\<close>

definition convert_layout_to_sharding_spec :: "Layout \<Rightarrow> ShardingSpec" where
  "convert_layout_to_sharding_spec layout =
     \<lparr>ShardingSpec.device_mesh = Layout.device_mesh layout,
      ShardingSpec.entire_shape = Layout.entire_shape layout,
      dim_partition_dict = dim_partition_dict (sharding_spec layout)\<rparr>"

definition construct_default_sharding_spec :: "Tensor \<Rightarrow> DeviceMesh \<Rightarrow> ShardingSpec" where
  "construct_default_sharding_spec tensor mesh =
     \<lparr>ShardingSpec.device_mesh = mesh,
      ShardingSpec.entire_shape = Some (shape tensor),
      dim_partition_dict = []\<rparr>"

section \<open>The distributed tensor\<close>

text \<open>The property \<^verbatim>\<open>DTensor.device_mesh\<close>: the mesh of the current layout.\<close>

definition DTensor_device_mesh :: "DTensor \<Rightarrow> heap \<Rightarrow> DeviceMesh" where
  "DTensor_device_mesh self h = Layout.device_mesh (h (dist_layout self))"

text \<open>
  \<^verbatim>\<open>_apply_layout\<close>: both specs are built first, then the planner runs, then the
  attribute is assigned. When the planner raises, nothing has been assigned.
\<close>

definition apply_layout :: "planner \<Rightarrow> DTensor \<Rightarrow> heap \<Rightarrow> (unit, DTensor) outcome" where
  "apply_layout P self h =
     (let source_spec = construct_default_sharding_spec (local_tensor self) (DTensor_device_mesh self h);
          target_spec = convert_layout_to_sharding_spec (h (dist_layout self))
      in case P (local_tensor self) source_spec target_spec of
           Inl e \<Rightarrow> Raise e self
         | Inr t \<Rightarrow> Return () (self\<lparr>local_tensor := t\<rparr>))"

text \<open>
  \<^verbatim>\<open>DTensor(local_tensor, dist_layout)\<close>. The state is the store of layouts: line 21
  writes the shape into the caller's layout before \<^verbatim>\<open>_apply_layout\<close> runs, so the
  write stays when the planner raises and no object is returned.
\<close>

definition DTensor_init :: "planner \<Rightarrow> Tensor \<Rightarrow> layout_ref \<Rightarrow> heap \<Rightarrow> (DTensor, heap) outcome" where
  "DTensor_init P local r h =
     (let h' = (if Layout.entire_shape (h r) = None
                then h(r := (h r)\<lparr>Layout.entire_shape := Some (shape local)\<rparr>)
                else h);
          self = \<lparr>local_tensor = local, data_type = dtype local,
                  DTensor.entire_shape = shape local, dist_layout = r\<rparr>
      in case apply_layout P self h' of
           Raise e _ \<Rightarrow> Raise e h'
         | Return _ self' \<Rightarrow> Return self' h')"

definition distribute_tensor :: "planner \<Rightarrow> Tensor \<Rightarrow> layout_ref \<Rightarrow> heap \<Rightarrow> (DTensor, heap) outcome" where
  "distribute_tensor P local r h = DTensor_init P local r h"

text \<open>
  \<^verbatim>\<open>layout_convert(target_layout)\<close>: the store is only read; the state is the tensor
  object. The two assignments come after the planner's call.
\<close>

definition layout_convert :: "planner \<Rightarrow> layout_ref \<Rightarrow> DTensor \<Rightarrow> heap \<Rightarrow> (unit, DTensor) outcome" where
  "layout_convert P target_layout self h =
     (let source_spec = convert_layout_to_sharding_spec (h (dist_layout self));
          target_spec = convert_layout_to_sharding_spec (h target_layout)
      in case P (local_tensor self) source_spec target_spec of
           Inl e \<Rightarrow> Raise e self
         | Inr t \<Rightarrow> Return () (self\<lparr>local_tensor := t, dist_layout := target_layout\<rparr>))"

text \<open>
  \<^verbatim>\<open>to(*args, **kwargs)\<close>: the arguments go to the array library's
  \<^verbatim>\<open>Tensor.to\<close> untouched, so the library call with its arguments is one parameter
  \<open>lib_to\<close>. The state is the tensor object and the store; the call returns \<^verbatim>\<open>self\<close>.
\<close>

definition DTensor_to :: "(Tensor \<Rightarrow> error + Tensor) \<Rightarrow> DTensor \<Rightarrow> heap \<Rightarrow> (DTensor, DTensor \<times> heap) outcome" where
  "DTensor_to lib_to self h =
     (case lib_to (local_tensor self) of
        Inl e \<Rightarrow> Raise e (self, h)
      | Inr t \<Rightarrow>
          (let self' = self\<lparr>local_tensor := t, data_type := dtype t\<rparr>;
               r = dist_layout self';
               h' = h(r := (h r)\<lparr>device_type := device t\<rparr>)
           in Return self' (self', h')))"

definition to_local :: "DTensor \<Rightarrow> Tensor" where
  "to_local self = local_tensor self"



section \<open>Operation delegation\<close>

text \<open>
  Python values as far as \<^verbatim>\<open>__torch_function__\<close> and \<^verbatim>\<open>distribute_module\<close> tell
  them apart: tensors, distributed tensors, other objects, and the containers that
  \<^verbatim>\<open>torch.utils._pytree.tree_map\<close> descends into (lists, tuples, dictionaries).
\<close>

datatype pyval =
  VTensor Tensor
  | VDTensor DTensor
  | VLayout layout_ref
  | VInt int
  | VNone
  | VList "pyval list"
  | VTuple "pyval list"
  | VDict "(string \<times> pyval) list"

text \<open>The local function \<^verbatim>\<open>filter_arg\<close> of \<^verbatim>\<open>__torch_function__\<close>.\<close>

fun filter_arg :: "pyval \<Rightarrow> pyval" where
  "filter_arg (VDTensor arg) = VTensor (local_tensor arg)"
| "filter_arg arg = arg"

text \<open>\<^verbatim>\<open>tree_map(f, tree)\<close>: \<open>f\<close> on every leaf, the containers rebuilt around the results.\<close>

fun tree_map :: "(pyval \<Rightarrow> pyval) \<Rightarrow> pyval \<Rightarrow> pyval" where
  "tree_map f (VList xs) = VList (map (tree_map f) xs)"
| "tree_map f (VTuple xs) = VTuple (map (tree_map f) xs)"
| "tree_map f (VDict kvs) = VDict (map (\<lambda>kv. (fst kv, tree_map f (snd kv))) kvs)"
| "tree_map f leaf = f leaf"

fun tuple_items :: "pyval \<Rightarrow> pyval list" where
  "tuple_items (VTuple xs) = xs"
| "tuple_items _ = []"

fun dict_items :: "pyval \<Rightarrow> (string \<times> pyval) list" where
  "dict_items (VDict kvs) = kvs"
| "dict_items _ = []"

text \<open>
  \<^verbatim>\<open>__torch_function__(cls, func, types, args=(), kwargs=None)\<close>. The library function
  \<open>func\<close> receives the positional arguments and the keyword arguments; whatever it
  gives back (of any type \<open>'r\<close>) is the result.
\<close>

definition torch_function ::
  "(pyval list \<Rightarrow> (string \<times> pyval) list \<Rightarrow> 'r) \<Rightarrow> 'ty \<Rightarrow> pyval list \<Rightarrow> (string \<times> pyval) list option \<Rightarrow> 'r" where
  "torch_function func types args kwargs =
     (let kwargs0 = (case kwargs of None \<Rightarrow> [] | Some kw \<Rightarrow> kw);
          args1 = tree_map filter_arg (VTuple args);
          kwargs1 = tree_map filter_arg (VDict kwargs0)
      in func (tuple_items args1) (dict_items kwargs1))"

text \<open>The leaves of a value, left to right, and the test \<^verbatim>\<open>isinstance(v, DTensor)\<close>.\<close>

fun leaves :: "pyval \<Rightarrow> pyval list" where
  "leaves (VList xs) = concat (map leaves xs)"
| "leaves (VTuple xs) = concat (map leaves xs)"
| "leaves (VDict kvs) = concat (map (\<lambda>kv. leaves (snd kv)) kvs)"
| "leaves leaf = [leaf]"

fun is_DTensor :: "pyval \<Rightarrow> bool" where
  "is_DTensor (VDTensor _) = True"
| "is_DTensor _ = False"

text \<open>A value that holds no distributed tensor.\<close>

definition dtensor_free :: "pyval \<Rightarrow> bool" where
  "dtensor_free v = list_all (\<lambda>l. \<not> is_DTensor l) (leaves v)"

section \<open>Module distribution\<close>

text \<open>
  An entry of the dictionary \<^verbatim>\<open>_parameters\<close> of a module is \<^verbatim>\<open>None\<close> or an object:
  an \<^verbatim>\<open>nn.Parameter\<close> over a plain tensor, or a \<^verbatim>\<open>DTensor\<close>, which is what
  \<^verbatim>\<open>isinstance(param, DTensor)\<close> accepts. The same object may be registered under
  several names (a tied weight), and the library tells objects apart by identity, so an
  entry holds the identity of its object next to its value. A module holds its own
  parameters and its child modules (\<^verbatim>\<open>_modules\<close>), both in insertion order.
\<close>

datatype param = Param Tensor | DParam DTensor

datatype Module =
  Module (parameters: "(string \<times> (nat \<times> param) option) list") (modules: "(string \<times> Module) list")

fun isinstance_DTensor :: "param \<Rightarrow> bool" where
  "isinstance_DTensor (DParam _) = True"
| "isinstance_DTensor (Param _) = False"

text \<open>
  \<^verbatim>\<open>Module.named_modules(prefix)\<close>: the module itself under \<open>prefix\<close>, then every
  child, depth first, under \<^verbatim>\<open>prefix + ('.' if prefix else '') + name\<close>. A child
  registered twice is listed twice here and once by the library; its parameters are the
  same objects both times, and \<open>remove_duplicate\<close> below passes over the second listing.
\<close>

definition join_name :: "string \<Rightarrow> string \<Rightarrow> string" where
  "join_name prefix name = prefix @ (if prefix = [] then [] else ''.'') @ name"

fun named_modules :: "string \<Rightarrow> Module \<Rightarrow> (string \<times> Module) list" where
  "named_modules prefix (Module ps ms) =
     (prefix, Module ps ms) #
     concat (map (\<lambda>c. named_modules (join_name prefix (fst c)) (snd c)) ms)"

text \<open>
  The members one module contributes to \<^verbatim>\<open>named_parameters\<close>: its own entries that
  are not \<^verbatim>\<open>None\<close>, each under its qualified name.
\<close>

fun members :: "string \<Rightarrow> (string \<times> (nat \<times> param) option) list \<Rightarrow> (string \<times> nat \<times> param) list" where
  "members module_prefix [] = []"
| "members module_prefix ((k, None) # rest) = members module_prefix rest"
| "members module_prefix ((k, Some v) # rest) = (join_name module_prefix k, v) # members module_prefix rest"

text \<open>
  The set \<^verbatim>\<open>memo\<close> of \<^verbatim>\<open>Module._named_members\<close>: an object that has been yielded
  under one name is not yielded again under another.
\<close>

fun remove_duplicate :: "nat list \<Rightarrow> (string \<times> nat \<times> param) list \<Rightarrow> (string \<times> param) list" where
  "remove_duplicate memo [] = []"
| "remove_duplicate memo ((name, i, v) # rest) =
     (if i \<in> set memo then remove_duplicate memo rest
      else (name, v) # remove_duplicate (i # memo) rest)"

text \<open>
  \<^verbatim>\<open>Module.named_parameters()\<close>: over the modules in the order of
  \<^verbatim>\<open>named_modules\<close>, every parameter object once, under the first name it has.
\<close>

definition named_parameters :: "Module \<Rightarrow> (string \<times> param) list" where
  "named_parameters m =
     remove_duplicate []
       (concat (map (\<lambda>pm. members (fst pm) (parameters (snd pm))) (named_modules [] m)))"

text \<open>
  The identities of the parameter objects of a module and its descendants, and an
  identity that none of them has: the one of an object created now.
\<close>

fun idents :: "Module \<Rightarrow> nat list" where
  "idents (Module ps ms) =
     map (\<lambda>e. fst (snd e)) (members [] ps) @ concat (map (\<lambda>c. idents (snd c)) ms)"

definition new_ident :: "Module \<Rightarrow> nat" where
  "new_ident m = Suc (fold max (idents m) 0)"

text \<open>
  \<^verbatim>\<open>torch.nn.Parameter(data)\<close>, by the branches of \<^verbatim>\<open>Parameter.__new__\<close>.
  \<^verbatim>\<open>None\<close> stands for \<^verbatim>\<open>torch.empty(0)\<close>. A plain tensor is wrapped with
  \<^verbatim>\<open>requires_grad=True\<close>, which the library refuses with \<^verbatim>\<open>RuntimeError\<close> unless
  the element type is a floating-point one. For an instance of a subclass of
  \<^verbatim>\<open>Tensor\<close> the result is \<^verbatim>\<open>data.detach()\<close>, provided it has the type of
  \<^verbatim>\<open>data\<close>, and \<^verbatim>\<open>RuntimeError\<close> otherwise. \<^verbatim>\<open>detach\<close> of a \<^verbatim>\<open>DTensor\<close>
  is routed through \<^verbatim>\<open>__torch_function__\<close>, so the library's \<^verbatim>\<open>detach\<close> runs on
  the local shard and hands back a plain tensor. Any other object has no
  \<^verbatim>\<open>detach\<close>: \<^verbatim>\<open>AttributeError\<close>. (Older versions of the library have no branch
  for subclasses and make a plain parameter of a \<^verbatim>\<open>DTensor\<close>; in no version is the
  result a \<^verbatim>\<open>DTensor\<close>.)
\<close>

definition empty_tensor :: Tensor where
  "empty_tensor = \<lparr>shape = [0], dtype = Float32, device = CPU, elems = Node []\<rparr>"

fun is_floating_point :: "dtype \<Rightarrow> bool" where
  "is_floating_point Float32 = True"
| "is_floating_point Float16 = True"
| "is_floating_point Int64 = False"

fun Tensor_detach :: "pyval list \<Rightarrow> (string \<times> pyval) list \<Rightarrow> pyval" where
  "Tensor_detach (v # rest) kwargs = v"
| "Tensor_detach [] kwargs = VNone"

definition DTensor_detach :: "DTensor \<Rightarrow> pyval" where
  "DTensor_detach d = torch_function Tensor_detach () [VDTensor d] None"

fun Parameter :: "pyval \<Rightarrow> error + param" where
  "Parameter VNone = Inr (Param empty_tensor)"
| "Parameter (VTensor t) =
     (if is_floating_point (dtype t) then Inr (Param t) else Inl RuntimeError)"
| "Parameter (VDTensor d) =
     (case DTensor_detach d of
        VDTensor t \<Rightarrow> Inr (DParam t)
      | _ \<Rightarrow> Inl RuntimeError)"
| "Parameter _ = Inl AttributeError"

text \<open>
  \<^verbatim>\<open>setattr(module, name, value)\<close> with a \<^verbatim>\<open>Parameter\<close> value runs
  \<^verbatim>\<open>Module.__setattr__\<close>: it removes \<open>name\<close> from the other attribute dictionaries
  and then calls \<^verbatim>\<open>register_parameter(name, value)\<close>, which raises \<^verbatim>\<open>KeyError\<close> for
  a name that contains a dot, for the empty name, and for a name that is an attribute but
  not a parameter; otherwise it stores the object under \<open>name\<close> in \<^verbatim>\<open>_parameters\<close>.
  The attributes of a module are its parameters and its child modules here.
\<close>

definition hasattr :: "Module \<Rightarrow> string \<Rightarrow> bool" where
  "hasattr m name = (name \<in> set (map fst (parameters m)) \<or> name \<in> set (map fst (modules m)))"

definition register_parameter :: "Module \<Rightarrow> string \<Rightarrow> nat \<times> param \<Rightarrow> (unit, Module) outcome" where
  "register_parameter m name p =
     (if CHR ''.'' \<in> set name then Raise KeyError m
      else if name = [] then Raise KeyError m
      else if hasattr m name \<and> name \<notin> set (map fst (parameters m)) then Raise KeyError m
      else Return () (Module (AList.update name (Some p) (parameters m)) (modules m)))"

definition Module_setattr :: "Module \<Rightarrow> string \<Rightarrow> nat \<times> param \<Rightarrow> (unit, Module) outcome" where
  "Module_setattr m name p =
     register_parameter (Module (parameters m) (AList.delete name (modules m))) name p"

text \<open>
  The partition function is the caller's; it may raise, and it may hand back any object.
  Its default is \<^verbatim>\<open>None\<close>, and calling \<^verbatim>\<open>None\<close> raises \<^verbatim>\<open>TypeError\<close>.
\<close>

type_synonym partition_fn = "string \<Rightarrow> Tensor \<Rightarrow> error + pyval"

definition call_partition_fn :: "partition_fn option \<Rightarrow> string \<Rightarrow> Tensor \<Rightarrow> error + pyval" where
  "call_partition_fn partition_fn name t =
     (case partition_fn of None \<Rightarrow> Inl TypeError | Some f \<Rightarrow> f name t)"

text \<open>The expression \<^verbatim>\<open>torch.nn.Parameter(partition_fn(name, param.data))\<close>.\<close>

definition new_parameter :: "partition_fn option \<Rightarrow> string \<Rightarrow> Tensor \<Rightarrow> error + param" where
  "new_parameter partition_fn name t =
     (case call_partition_fn partition_fn name t of
        Inl e \<Rightarrow> Inl e
      | Inr v \<Rightarrow> Parameter v)"

text \<open>
  The loop of \<^verbatim>\<open>distribute_module\<close> over the pairs that \<^verbatim>\<open>named_parameters\<close>
  yields. \<^verbatim>\<open>named_parameters\<close> never yields \<^verbatim>\<open>None\<close>, so the test
  \<^verbatim>\<open>param is not None\<close> holds for every pair; \<^verbatim>\<open>param.data\<close> of a plain parameter is
  its tensor. The object that \<^verbatim>\<open>Parameter\<close> returns is a new one. The pairs are those
  of the module as it was at the call: the generator reads the dictionaries while the loop
  runs, but on a module that the registration checks admit (no name is both a parameter
  and a child) an assignment either raises or puts a new object under the name just
  yielded, and the entries still to come are as they were.
\<close>

fun distribute_loop :: "partition_fn option \<Rightarrow> (string \<times> param) list \<Rightarrow> Module \<Rightarrow> (unit, Module) outcome" where
  "distribute_loop partition_fn [] m = Return () m"
| "distribute_loop partition_fn ((name, DParam d) # rest) m = distribute_loop partition_fn rest m"
| "distribute_loop partition_fn ((name, Param t) # rest) m =
     (case new_parameter partition_fn name t of
        Inl e \<Rightarrow> Raise e m
      | Inr q \<Rightarrow>
          (case Module_setattr m name (new_ident m, q) of
             Raise e m' \<Rightarrow> Raise e m'
           | Return _ m' \<Rightarrow> distribute_loop partition_fn rest m'))"

definition distribute_module :: "partition_fn option \<Rightarrow> Module \<Rightarrow> (Module, Module) outcome" where
  "distribute_module partition_fn m =
     (case distribute_loop partition_fn (named_parameters m) m of
        Raise e m' \<Rightarrow> Raise e m'
      | Return _ m' \<Rightarrow> Return m' m')"

section \<open>The planner of the specification\<close>

text \<open>
  The planner behind \<^verbatim>\<open>apply_for_autoparallel_runtime\<close>
  (\<^verbatim>\<open>ShapeConsistencyManager\<close>) is not among the sources. Sections 3, 4.1, 4.2 and 7 of
  the specification give it: a spec is validated before planning; source and target must
  agree on shape and mesh; then every mesh axis, in ascending order, gets one primitive,
  and the primitives run in that order on the local tensor.
\<close>

text \<open>
  Modelled from the spec: \<^verbatim>\<open>validate(spec)\<close> of section 4.1, the invariant of section 3.
  The shape is resolved and the association list is a dictionary; no mesh axis is claimed
  twice; every mesh axis lies within the mesh; every logical dimension lies within the
  shape and its extent is evenly divisible by the product of the extents of its mesh axes.
\<close>

definition validate :: "ShardingSpec \<Rightarrow> bool" where
  "validate s =
     (case ShardingSpec.entire_shape s of
        None \<Rightarrow> False
      | Some shp \<Rightarrow>
          distinct (map fst (dim_partition_dict s)) \<and>
          distinct (concat (map snd (dim_partition_dict s))) \<and>
          list_all (\<lambda>a. a < length (mesh_shape (ShardingSpec.device_mesh s)))
            (concat (map snd (dim_partition_dict s))) \<and>
          list_all (\<lambda>da. fst da < length shp \<and>
              0 < prod_list (map (\<lambda>a. mesh_shape (ShardingSpec.device_mesh s) ! a) (snd da)) \<and>
              (shp ! fst da) mod prod_list (map (\<lambda>a. mesh_shape (ShardingSpec.device_mesh s) ! a) (snd da)) = 0)
            (dim_partition_dict s))"

text \<open>
  Modelled from the spec: the four primitive moves of section 4.2. A split and a gather
  name the logical dimension and the mesh axis, an all-to-all the old dimension, the new
  dimension and the mesh axis.
\<close>

datatype primitive = NoOp | Split nat nat | Gather nat nat | AllToAll nat nat nat

text \<open>
  Modelled from the spec: the logical dimension that a mesh axis is assigned to, if any
  (section 3: a mesh axis is claimed by at most one logical dimension).
\<close>

definition owner :: "ShardingSpec \<Rightarrow> nat \<Rightarrow> nat option" where
  "owner s a = map_option fst (find (\<lambda>da. a \<in> set (snd da)) (dim_partition_dict s))"

text \<open>
  Modelled from the spec: the primitive of one mesh axis (section 4.2): a split when the
  axis is newly assigned, a gather when it is no longer assigned, an all-to-all when it is
  assigned to another dimension, and the no-op when the assignment is the same.
\<close>

definition primitive_for :: "ShardingSpec \<Rightarrow> ShardingSpec \<Rightarrow> nat \<Rightarrow> primitive" where
  "primitive_for src tgt a =
     (case owner src a of
        None \<Rightarrow> (case owner tgt a of None \<Rightarrow> NoOp | Some d' \<Rightarrow> Split d' a)
      | Some d \<Rightarrow> (case owner tgt a of None \<Rightarrow> Gather d a
                   | Some d' \<Rightarrow> if d = d' then NoOp else AllToAll d d' a))"

text \<open>Modelled from the spec: one primitive per mesh axis, in ascending order of the axes.\<close>

definition plan :: "ShardingSpec \<Rightarrow> ShardingSpec \<Rightarrow> primitive list" where
  "plan src tgt =
     map (primitive_for src tgt) [0 ..< length (mesh_shape (ShardingSpec.device_mesh src))]"

text \<open>
  Modelled from the spec: the primitives run in order, each on the result of the one
  before; the no-op is skipped. Running a split, a gather or an all-to-all is the array
  library's and the communication layer's work and stays a parameter \<open>ex\<close>, which may
  fail.
\<close>

fun run_plan :: "(primitive \<Rightarrow> Tensor \<Rightarrow> error + Tensor) \<Rightarrow> primitive list \<Rightarrow> Tensor \<Rightarrow> error + Tensor" where
  "run_plan ex [] t = Inr t"
| "run_plan ex (NoOp # ps) t = run_plan ex ps t"
| "run_plan ex (p # ps) t = (case ex p t of Inl e \<Rightarrow> Inl e | Inr t' \<Rightarrow> run_plan ex ps t')"

text \<open>
  Modelled from the spec: \<^verbatim>\<open>reshard(local_tensor, source_spec, target_spec)\<close> of section
  4.2, with the errors of section 7: both specs are validated before any planning, then
  source and target must agree on shape and mesh, then the plan runs.
\<close>

definition reshard :: "(primitive \<Rightarrow> Tensor \<Rightarrow> error + Tensor) \<Rightarrow> planner" where
  "reshard ex t src tgt =
     (if \<not> validate src \<or> \<not> validate tgt then Inl InvalidPartitionError
      else if ShardingSpec.entire_shape src \<noteq> ShardingSpec.entire_shape tgt
              \<or> ShardingSpec.device_mesh src \<noteq> ShardingSpec.device_mesh tgt
           then Inl IncompatibleSpecError
      else run_plan ex (plan src tgt) t)"

subsection \<open>The primitives on the shards of all devices\<close>

text \<open>
  Modelled from the spec: local slicing of the array library (section 6), as the split of
  section 4.2 uses it. Along dimension \<open>d\<close>, of \<open>g\<close> equal blocks the one at index
  \<open>k\<close>: extent \<^verbatim>\<open>local_extent / group_size\<close> at offset
  \<^verbatim>\<open>coordinate * local_extent / group_size\<close>.
\<close>

fun slice_nd :: "nat \<Rightarrow> nat \<Rightarrow> nat \<Rightarrow> nd \<Rightarrow> nd" where
  "slice_nd d k g (Leaf v) = Leaf v"
| "slice_nd 0 k g (Node xs) = Node (take (length xs div g) (drop (k * (length xs div g)) xs))"
| "slice_nd (Suc d) k g (Node xs) = Node (map (slice_nd d k g) xs)"

text \<open>
  Modelled from the spec: the same slice on a tensor (section 6): the extent of dimension
  \<open>d\<close> in the shape is divided by \<open>g\<close>, as \<^verbatim>\<open>derive_local_shape\<close> of section 4.1
  has it.
\<close>

definition slice_dim :: "nat \<Rightarrow> nat \<Rightarrow> nat \<Rightarrow> Tensor \<Rightarrow> Tensor" where
  "slice_dim d k g t =
     t\<lparr>shape := (shape t)[d := shape t ! d div g], elems := slice_nd d k g (elems t)\<rparr>"

text \<open>The entries of a nested list along its first dimension; a scalar has none.\<close>

fun children :: "nd \<Rightarrow> nd list" where
  "children (Node xs) = xs"
| "children (Leaf v) = []"

text \<open>
  Modelled from the spec: concatenation of the array library along a dimension (section 6).
  At dimension 0 the blocks follow one another; at a deeper dimension the blocks are
  concatenated position by position.
\<close>

fun cat_nd :: "nat \<Rightarrow> nd list \<Rightarrow> nd" where
  "cat_nd 0 ts = Node (concat (map children ts))"
| "cat_nd (Suc d) ts = Node (map (cat_nd d) (transpose (map children ts)))"

text \<open>
  Modelled from the spec: the same concatenation on tensors (section 6). The extent of
  dimension \<open>d\<close> is the sum of the extents of the blocks; the other attributes are those
  of the caller's own tensor.
\<close>

definition cat_dim :: "nat \<Rightarrow> Tensor \<Rightarrow> Tensor list \<Rightarrow> Tensor" where
  "cat_dim d own ts =
     own\<lparr>shape := (shape own)[d := sum_list (map (\<lambda>t. shape t ! d) ts)],
         elems := cat_nd d (map elems ts)\<rparr>"

text \<open>
  Modelled from the spec: one process per mesh coordinate (section 5). A coordinate has one
  entry per mesh axis; the shards that the devices hold at one moment are a function of the
  coordinate.
\<close>

type_synonym coord = "nat list"

type_synonym world = "coord \<Rightarrow> Tensor"

text \<open>
  Modelled from the spec: the all-gather of section 4.2 over the group of mesh axis \<open>a\<close>,
  the devices that differ from the caller in that coordinate only. Their shards are
  concatenated along the logical dimension in ascending rank order. The collectives are
  reliable (section 1), so the call returns.
\<close>

definition all_gather :: "nat list \<Rightarrow> nat \<Rightarrow> nat \<Rightarrow> world \<Rightarrow> coord \<Rightarrow> Tensor" where
  "all_gather ms d a w c = cat_dim d (w c) (map (\<lambda>k. w (c[a := k])) [0 ..< ms ! a])"

text \<open>
  Modelled from the spec: one primitive of section 4.2, run by every device at once. A
  split keeps the block at the device's own coordinate along the axis; a gather is the
  all-gather; an all-to-all un-shards the old dimension and re-shards along the new one
  within the group of the axis.
\<close>

fun step_world :: "nat list \<Rightarrow> primitive \<Rightarrow> world \<Rightarrow> world" where
  "step_world ms NoOp w = w"
| "step_world ms (Split d a) w = (\<lambda>c. slice_dim d (c ! a) (ms ! a) (w c))"
| "step_world ms (Gather d a) w = all_gather ms d a w"
| "step_world ms (AllToAll d d' a) w =
     (\<lambda>c. slice_dim d' (c ! a) (ms ! a) (all_gather ms d a w c))"

text \<open>
  Modelled from the spec: the primitives of a plan in order, each on the shards that the
  one before has left on the devices (sections 4.2 and 5).
\<close>

fun run_world :: "nat list \<Rightarrow> primitive list \<Rightarrow> world \<Rightarrow> world" where
  "run_world ms [] w = w"
| "run_world ms (p # ps) w = run_world ms ps (step_world ms p w)"

text \<open>
  Modelled from the spec: \<^verbatim>\<open>reshard\<close> of section 4.2 as the device at coordinate \<open>c\<close>
  calls it while every other device makes the matching call on the shard \<open>w\<close> gives it:
  the checks of \<open>reshard\<close>, then the plan run on all devices, of which the caller keeps
  its own result.
\<close>

definition spmd_reshard :: "world \<Rightarrow> coord \<Rightarrow> planner" where
  "spmd_reshard w c t src tgt =
     (if \<not> validate src \<or> \<not> validate tgt then Inl InvalidPartitionError
      else if ShardingSpec.entire_shape src \<noteq> ShardingSpec.entire_shape tgt
              \<or> ShardingSpec.device_mesh src \<noteq> ShardingSpec.device_mesh tgt
           then Inl IncompatibleSpecError
      else Inr (run_world (mesh_shape (ShardingSpec.device_mesh src)) (plan src tgt) (w(c := t)) c))"

text \<open>
  Modelled from the spec: the shard of a global tensor that a spec gives the device at a
  coordinate (section 3). Every logical dimension in the partition dictionary is split
  along its mesh axes, applied in the given order, and the device keeps the block at its
  own coordinate each time.
\<close>

definition shards :: "ShardingSpec \<Rightarrow> Tensor \<Rightarrow> world" where
  "shards s X c =
     fold (\<lambda>da. fold (\<lambda>a. slice_dim (fst da) (c ! a) (mesh_shape (ShardingSpec.device_mesh s) ! a))
                  (snd da))
       (dim_partition_dict s) X"

text \<open>A spec that splits every logical dimension over one mesh axis at most.\<close>

definition one_axis_per_dim :: "ShardingSpec \<Rightarrow> bool" where
  "one_axis_per_dim s = list_all (\<lambda>da. length (snd da) \<le> 1) (dim_partition_dict s)"




text \<open>The split that one mesh axis contributes to the shard of a device.\<close>

definition split_axis :: "ShardingSpec \<Rightarrow> coord \<Rightarrow> nat \<Rightarrow> Tensor \<Rightarrow> Tensor" where
  "split_axis s c a t =
     (case owner s a of
        None \<Rightarrow> t
      | Some d \<Rightarrow> slice_dim d (c ! a) (mesh_shape (ShardingSpec.device_mesh s) ! a) t)"

section \<open>Sample objects\<close>

text \<open>
  A two-by-two mesh, a two-by-two tensor with two equal rows, and layouts over them.
  \<open>sample_ex\<close> runs the primitives as the device at coordinate 0 of a two-wide axis sees
  them when its peer holds the same rows: a split of dimension 0 keeps the first half, a
  gather of dimension 0 appends the peer's half, and nothing else is supported.
\<close>

definition sample_mesh :: DeviceMesh where
  "sample_mesh = \<lparr>mesh_id = 0, mesh_shape = [2, 2]\<rparr>"

definition sample_tensor :: Tensor where
  "sample_tensor = \<lparr>shape = [2, 2], dtype = Float32, device = CPU, elems = Node [Node [Leaf 1, Leaf 2], Node [Leaf 1, Leaf 2]]\<rparr>"

definition sample_layout :: "(nat \<times> nat list) list \<Rightarrow> nat list option \<Rightarrow> Layout" where
  "sample_layout dpd shp =
     \<lparr>Layout.device_mesh = sample_mesh, device_type = CPU,
      sharding_spec = \<lparr>ShardingSpec.device_mesh = sample_mesh,
                        ShardingSpec.entire_shape = Some [2, 2], dim_partition_dict = dpd\<rparr>,
      Layout.entire_shape = shp\<rparr>"

text \<open>
  Layout 0 splits dimension 0 over mesh axis 0 and has no shape yet; layout 2 is the same
  with its shape set; every other layout is replicated.
\<close>

definition sample_heap :: heap where
  "sample_heap =
     (\<lambda>r. sample_layout [] (Some [2, 2]))
       (0 := sample_layout [(0, [0])] None, 2 := sample_layout [(0, [0])] (Some [2, 2]))"

fun sample_ex :: "primitive \<Rightarrow> Tensor \<Rightarrow> error + Tensor" where
  "sample_ex (Split d a) t =
     (if d = 0 then Inr (slice_dim 0 0 2 t) else Inl CollectiveFailureError)"
| "sample_ex (Gather d a) t =
     (if d = 0 then Inr (cat_dim 0 t [t, t]) else Inl CollectiveFailureError)"
| "sample_ex p t = Inl CollectiveFailureError"

text \<open>
  The distributed tensor that wrapping \<open>sample_tensor\<close> with layout 0 gives, the store
  after that construction, a library move to the first accelerator with a cast, a wider
  tensor, and modules with and without a plain parameter.
\<close>

definition sample_dtensor :: DTensor where
  "sample_dtensor =
     \<lparr>local_tensor = \<lparr>shape = [1, 2], dtype = Float32, device = CPU,
                       elems = Node [Node [Leaf 1, Leaf 2]]\<rparr>,
      data_type = Float32, DTensor.entire_shape = [2, 2], dist_layout = 0\<rparr>"

definition resolved_heap :: heap where
  "resolved_heap = sample_heap(0 := sample_layout [(0, [0])] (Some [2, 2]))"

definition sample_to :: "Tensor \<Rightarrow> error + Tensor" where
  "sample_to t = Inr (t\<lparr>dtype := Float16, device := CUDA 0\<rparr>)"

definition wide_tensor :: Tensor where
  "wide_tensor =
     \<lparr>shape = [2, 4], dtype = Float32, device = CPU,
      elems = Node [Node [Leaf 1, Leaf 2, Leaf 3, Leaf 4], Node [Leaf 1, Leaf 2, Leaf 3, Leaf 4]]\<rparr>"

definition mixed_module :: Module where
  "mixed_module =
     Module [(''scale'', Some (1, DParam sample_dtensor)), (''weight'', Some (2, Param sample_tensor)),
             (''bias'', None)] []"

definition dtensor_module :: Module where
  "dtensor_module = Module [(''scale'', Some (1, DParam sample_dtensor))] []"

text \<open>
  A partition function that distributes with layout 2, a module whose only parameter
  belongs to a child, and a module that holds one parameter object under two names.
\<close>

definition sample_partition_fn :: partition_fn where
  "sample_partition_fn name t =
     (case DTensor_init (reshard sample_ex) t 2 sample_heap of
        Return d h \<Rightarrow> Inr (VDTensor d)
      | Raise e h \<Rightarrow> Inl e)"

definition nested_module :: Module where
  "nested_module = Module [] [(''sub'', Module [(''weight'', Some (1, Param sample_tensor))] [])]"

definition tied_module :: Module where
  "tied_module =
     Module [(''weight'', Some (1, Param sample_tensor)), (''alias'', Some (1, Param sample_tensor))] []"



definition spmd_heap :: heap where
  "spmd_heap =
     sample_heap(4 := sample_layout [(0, [0]), (1, [1])] (Some [2, 2]),
                 5 := sample_layout [(0, [0, 1])] (Some [4]))"



section \<open>Facts about the sample objects\<close>

lemma sample_heap_facts:
  "sample_heap 0 = sample_layout [(0, [0])] None"
  "sample_heap 2 = sample_layout [(0, [0])] (Some [2, 2])"
  "sample_heap 3 = sample_layout [] (Some [2, 2])"
  "resolved_heap 0 = sample_layout [(0, [0])] (Some [2, 2])"
  "resolved_heap 2 = sample_layout [(0, [0])] (Some [2, 2])"
  "resolved_heap 3 = sample_layout [] (Some [2, 2])"
  "spmd_heap 4 = sample_layout [(0, [0]), (1, [1])] (Some [2, 2])"
  "spmd_heap 5 = sample_layout [(0, [0, 1])] (Some [4])"
  by (simp_all add: sample_heap_def resolved_heap_def spmd_heap_def)

lemma sample_specs:
  "convert_layout_to_sharding_spec (sample_layout dpd shp) =
     \<lparr>ShardingSpec.device_mesh = sample_mesh, ShardingSpec.entire_shape = shp,
      dim_partition_dict = dpd\<rparr>"
  by (simp add: convert_layout_to_sharding_spec_def sample_layout_def)

lemma sample_valid:
  "validate \<lparr>ShardingSpec.device_mesh = sample_mesh, ShardingSpec.entire_shape = Some [2, 2],
      dim_partition_dict = [(0, [0])]\<rparr>"
  "validate \<lparr>ShardingSpec.device_mesh = sample_mesh, ShardingSpec.entire_shape = Some [2, 2],
      dim_partition_dict = []\<rparr>"
  by (simp_all add: validate_def sample_mesh_def)

lemma sample_split:
  "reshard sample_ex sample_tensor
     \<lparr>ShardingSpec.device_mesh = sample_mesh, ShardingSpec.entire_shape = Some [2, 2],
      dim_partition_dict = []\<rparr>
     \<lparr>ShardingSpec.device_mesh = sample_mesh, ShardingSpec.entire_shape = Some [2, 2],
      dim_partition_dict = [(0, [0])]\<rparr>
   = Inr (local_tensor sample_dtensor)"
  by (simp add: reshard_def validate_def plan_def primitive_for_def owner_def sample_mesh_def
      sample_tensor_def sample_dtensor_def slice_dim_def upt_rec)

lemma sample_gather:
  "reshard sample_ex (local_tensor sample_dtensor)
     \<lparr>ShardingSpec.device_mesh = sample_mesh, ShardingSpec.entire_shape = Some [2, 2],
      dim_partition_dict = [(0, [0])]\<rparr>
     \<lparr>ShardingSpec.device_mesh = sample_mesh, ShardingSpec.entire_shape = Some [2, 2],
      dim_partition_dict = []\<rparr>
   = Inr sample_tensor"
  by (simp add: reshard_def validate_def plan_def primitive_for_def owner_def sample_mesh_def
      sample_tensor_def sample_dtensor_def cat_dim_def upt_rec)

lemma sample_partition:
  "sample_partition_fn name sample_tensor = Inr (VDTensor (sample_dtensor\<lparr>dist_layout := 2\<rparr>))"
proof -
  have shp: "shape sample_tensor = [2, 2]" and dt: "dtype sample_tensor = Float32"
    by (simp_all add: sample_tensor_def)
  have mesh: "Layout.device_mesh (sample_layout dpd s) = sample_mesh"
    and shape: "Layout.entire_shape (sample_layout dpd s) = s" for dpd s
    by (simp_all add: sample_layout_def)
  show ?thesis
    by (simp add: sample_partition_fn_def DTensor_init_def apply_layout_def Let_def
        construct_default_sharding_spec_def DTensor_device_mesh_def sample_heap_facts
        sample_specs sample_split shp dt mesh shape sample_dtensor_def)
qed





section \<open>Construction and layout conversion\<close>

text \<open>
  The store after a construction: the layout handed in has its shape resolved, and the
  store is otherwise as before, whether the planner returned or raised.
\<close>

lemma DTensor_init_heap:
  "post (DTensor_init P local r h) =
     h(r := (h r)\<lparr>Layout.entire_shape :=
       Some (case Layout.entire_shape (h r) of None \<Rightarrow> shape local | Some s \<Rightarrow> s)\<rparr>)"
proof (cases "Layout.entire_shape (h r)")
  case None
  then show ?thesis by (simp add: DTensor_init_def Let_def split: outcome.splits)
next
  case (Some s)
  then have same: "(h r)\<lparr>Layout.entire_shape := Some s\<rparr> = h r"
    by (cases "h r") simp
  from Some show ?thesis by (simp add: DTensor_init_def Let_def same split: outcome.splits)
qed

lemma DTensor_to_heap:
  "snd (post (DTensor_to lib_to self h)) =
     (case lib_to (local_tensor self) of
        Inl e \<Rightarrow> h
      | Inr t \<Rightarrow> h(dist_layout self := (h (dist_layout self))\<lparr>device_type := device t\<rparr>))"
  by (simp add: DTensor_to_def Let_def split: sum.splits)

text \<open>
  Claim C1. The constructor \<^verbatim>\<open>DTensor(local_full_tensor, target_layout)\<close> builds the
  default source spec (the mesh of the layout, the shape of the tensor handed in, an empty
  partition dictionary), calls the planner on the tensor handed in with that source spec
  and the spec converted from the target layout (its shape resolved), and stores the
  planner's result as the local shard. When the planner raises, so does the constructor.
\<close>

theorem DTensor_init_planner:
  "DTensor_init P local r h =
     (let layout = (h r)\<lparr>Layout.entire_shape :=
            Some (case Layout.entire_shape (h r) of None \<Rightarrow> shape local | Some s \<Rightarrow> s)\<rparr>
      in case P local
             \<lparr>ShardingSpec.device_mesh = Layout.device_mesh (h r),
              ShardingSpec.entire_shape = Some (shape local), dim_partition_dict = []\<rparr>
             (convert_layout_to_sharding_spec layout) of
        Inr shard \<Rightarrow>
          Return \<lparr>local_tensor = shard, data_type = dtype local,
                  DTensor.entire_shape = shape local, dist_layout = r\<rparr>
                 (h(r := layout))
      | Inl e \<Rightarrow> Raise e (h(r := layout)))"
proof (cases "Layout.entire_shape (h r)")
  case None
  then show ?thesis
    by (simp add: DTensor_init_def apply_layout_def construct_default_sharding_spec_def
        DTensor_device_mesh_def Let_def split: sum.splits)
next
  case (Some s)
  then have same: "(h r)\<lparr>Layout.entire_shape := Some s\<rparr> = h r"
    by (cases "h r") simp
  from Some show ?thesis
    by (simp add: DTensor_init_def apply_layout_def construct_default_sharding_spec_def
        DTensor_device_mesh_def Let_def same split: sum.splits)
qed

theorem DTensor_init_planner_witness:
  "DTensor_init (reshard sample_ex) sample_tensor 0 sample_heap =
     Return sample_dtensor resolved_heap"
proof -
  have shp: "shape sample_tensor = [2, 2]" and dt: "dtype sample_tensor = Float32"
    by (simp_all add: sample_tensor_def)
  have lay: "(sample_layout [(0, [0])] None)\<lparr>Layout.entire_shape := Some [2, 2]\<rparr>
      = sample_layout [(0, [0])] (Some [2, 2])"
    and mesh: "Layout.device_mesh (sample_layout [(0, [0])] None) = sample_mesh"
    and shape: "Layout.entire_shape (sample_layout [(0, [0])] None) = None"
    by (simp_all add: sample_layout_def)
  show ?thesis
    using DTensor_init_planner [where P = "reshard sample_ex" and local = sample_tensor
      and r = 0 and h = sample_heap]
    by (simp add: Let_def sample_heap_facts shp dt lay mesh shape sample_specs sample_split
        resolved_heap_def sample_dtensor_def)
qed

text \<open>
  Claim C4. \<^verbatim>\<open>layout_convert(new_layout)\<close> converts the current layout and the new
  layout to specs, calls the planner on the current local shard with the two, and then
  replaces the stored local shard by the planner's result and the stored layout by the
  new layout, on the object itself. When the planner raises, the object is as before.
\<close>

theorem layout_convert_planner:
  "layout_convert P new_layout self h =
    (case P (local_tensor self) (convert_layout_to_sharding_spec (h (dist_layout self)))
           (convert_layout_to_sharding_spec (h new_layout)) of
      Inr shard \<Rightarrow> Return () (self\<lparr>local_tensor := shard, dist_layout := new_layout\<rparr>)
    | Inl e \<Rightarrow> Raise e self)"
  by (simp add: layout_convert_def Let_def split: sum.splits)

theorem layout_convert_planner_witness:
  "layout_convert (reshard sample_ex) 3 sample_dtensor resolved_heap =
     Return () (sample_dtensor\<lparr>local_tensor := sample_tensor, dist_layout := 3\<rparr>)"
proof -
  have "dist_layout sample_dtensor = 0"
    by (simp add: sample_dtensor_def)
  then show ?thesis
    using layout_convert_planner [where P = "reshard sample_ex" and new_layout = 3
      and self = sample_dtensor and h = resolved_heap]
    by (simp add: sample_heap_facts sample_specs sample_gather)
qed

section \<open>Conversion to the current layout and global reconstruction\<close>

lemma primitive_for_same: "primitive_for s s a = NoOp"
  by (simp add: primitive_for_def split: option.splits)

lemma run_plan_NoOps: "list_all (\<lambda>p. p = NoOp) ps \<Longrightarrow> run_plan ex ps t = Inr t"
  by (induction ps) simp_all

lemma plan_same: "list_all (\<lambda>p. p = NoOp) (plan s s)"
  by (simp add: plan_def list_all_iff primitive_for_same)

lemma reshard_same:
  "reshard ex t s s = (if validate s then Inr t else Inl InvalidPartitionError)"
  by (simp add: reshard_def run_plan_NoOps plan_same)

text \<open>
  The planner of the specification returns only for validated specs, so every tensor that
  the constructor or \<^verbatim>\<open>layout_convert\<close> hands back under it has a current layout whose
  spec passes validation.
\<close>

lemma reshard_Inr_valid: "reshard ex t src tgt = Inr t' \<Longrightarrow> validate src \<and> validate tgt"
  by (simp add: reshard_def split: if_splits)

lemma DTensor_init_valid:
  "DTensor_init (reshard ex) local r h = Return self h' \<Longrightarrow>
   validate (convert_layout_to_sharding_spec (h' (dist_layout self)))"
  by (auto simp: DTensor_init_def apply_layout_def Let_def split: sum.splits if_splits
      dest: reshard_Inr_valid)

lemma layout_convert_valid:
  "layout_convert (reshard ex) new_layout self h = Return u self' \<Longrightarrow>
   validate (convert_layout_to_sharding_spec (h (dist_layout self')))"
  by (auto simp: layout_convert_def Let_def split: sum.splits dest: reshard_Inr_valid)

text \<open>
  Claim C5. Under the planner of the specification, \<^verbatim>\<open>layout_convert\<close> to a layout
  that converts to the same spec as the current layout (a layout equal to the current one
  in particular) leaves the local shard unchanged. Every mesh axis gets the no-op: for a
  spec that passes validation the call returns and only the reference to the layout is
  replaced; for any other spec the call raises and the object is as before.
\<close>

theorem layout_convert_same_layout:
  assumes "convert_layout_to_sharding_spec (h new_layout) =
           convert_layout_to_sharding_spec (h (dist_layout self))"
  shows "local_tensor (post (layout_convert (reshard ex) new_layout self h)) = local_tensor self \<and>
         layout_convert (reshard ex) new_layout self h =
           (if validate (convert_layout_to_sharding_spec (h (dist_layout self)))
            then Return () (self\<lparr>dist_layout := new_layout\<rparr>)
            else Raise InvalidPartitionError self)"
  using assms by (simp add: layout_convert_def Let_def reshard_same)

theorem layout_convert_same_layout_witness:
  "convert_layout_to_sharding_spec (resolved_heap 2) =
     convert_layout_to_sharding_spec (resolved_heap (dist_layout sample_dtensor)) \<and>
   layout_convert (reshard sample_ex) 2 sample_dtensor resolved_heap =
     Return () (sample_dtensor\<lparr>dist_layout := 2\<rparr>) \<and>
   local_tensor (post (layout_convert (reshard sample_ex) 2 sample_dtensor resolved_heap)) =
     local_tensor sample_dtensor"
proof -
  have eq: "convert_layout_to_sharding_spec (resolved_heap 2) =
     convert_layout_to_sharding_spec (resolved_heap (dist_layout sample_dtensor))"
    by (simp add: sample_heap_facts sample_dtensor_def)
  have v: "validate (convert_layout_to_sharding_spec (resolved_heap (dist_layout sample_dtensor)))"
    by (simp add: sample_heap_facts sample_specs sample_valid sample_dtensor_def)
  from layout_convert_same_layout [OF eq, of sample_ex] v eq show ?thesis
    by simp
qed

subsection \<open>Slicing and concatenation of nested lists\<close>



text \<open>Slices along two different dimensions commute, and one keeps the extent of the other.\<close>

lemma slice_nd_commute:
  "d \<noteq> d' \<Longrightarrow>
   slice_nd d k g (slice_nd d' k' g' x) = slice_nd d' k' g' (slice_nd d k g x)"
proof (induction d k g x arbitrary: d' rule: slice_nd.induct)
  case (1 d k g v)
  then show ?case by simp
next
  case (2 k g xs)
  then obtain j where "d' = Suc j" by (cases d') auto
  then show ?case by (simp add: take_map drop_map)
next
  case (3 d k g xs)
  show ?case
  proof (cases d')
    case 0
    then show ?thesis by (simp add: take_map drop_map)
  next
    case (Suc j)
    with 3 show ?thesis by simp
  qed
qed



subsection \<open>Slicing and gathering of tensors\<close>



lemma slice_dim_commute:
  "d \<noteq> d' \<Longrightarrow>
   slice_dim d k g (slice_dim d' k' g' t) = slice_dim d' k' g' (slice_dim d k g t)"
  by (simp add: slice_dim_def slice_nd_commute [of d d'] list_update_swap [of d d'])


subsection \<open>The mesh axes of a validated spec\<close>

lemma find_SomeD: "find P xs = Some x \<Longrightarrow> x \<in> set xs \<and> P x"
  by (induction xs) (auto split: if_splits)

lemma find_owner:
  "distinct (concat (map snd xs)) \<Longrightarrow> (d, l) \<in> set xs \<Longrightarrow> a \<in> set l \<Longrightarrow>
   find (\<lambda>da. a \<in> set (snd da)) xs = Some (d, l)"
proof (induction xs)
  case Nil
  then show ?case by simp
next
  case (Cons x xs)
  show ?case
  proof (cases "a \<in> set (snd x)")
    case True
    with Cons.prems have "(d, l) \<notin> set xs" by fastforce
    with Cons.prems True show ?thesis by auto
  next
    case False
    with Cons show ?thesis by auto
  qed
qed

lemma owner_entry:
  "owner s a = Some d \<Longrightarrow> \<exists>l. (d, l) \<in> set (dim_partition_dict s) \<and> a \<in> set l"
  by (auto simp: owner_def dest!: find_SomeD)

lemma owner_None: "owner s a = None \<longleftrightarrow> a \<notin> set (concat (map snd (dim_partition_dict s)))"
  by (auto simp: owner_def find_None_iff)

lemma owner_of_entry:
  "distinct (concat (map snd (dim_partition_dict s))) \<Longrightarrow> (d, l) \<in> set (dim_partition_dict s) \<Longrightarrow>
   a \<in> set l \<Longrightarrow> owner s a = Some d"
  by (simp add: owner_def find_owner)

lemma validate_parts:
  assumes "validate s"
  shows "distinct (map fst (dim_partition_dict s))"
    and "distinct (concat (map snd (dim_partition_dict s)))"
    and "\<And>a. a \<in> set (concat (map snd (dim_partition_dict s))) \<Longrightarrow>
           a < length (mesh_shape (ShardingSpec.device_mesh s))"
  using assms by (auto simp: validate_def list_all_iff split: option.splits)


text \<open>
  When every logical dimension is split over one mesh axis at most, two mesh axes never
  split the same dimension, and the extent of the axis divides the extent of the dimension.
\<close>

lemma owner_inj:
  assumes v: "validate s" and o: "one_axis_per_dim s"
    and a: "owner s a = Some d" and a': "owner s a' = Some d"
  shows "a = a'"
proof -
  from owner_entry [OF a] obtain l where l: "(d, l) \<in> set (dim_partition_dict s)" "a \<in> set l"
    by blast
  from owner_entry [OF a'] obtain l' where l': "(d, l') \<in> set (dim_partition_dict s)" "a' \<in> set l'"
    by blast
  from validate_parts(1) [OF v] l(1) l'(1) have "l = l'"
    by (rule eq_key_imp_eq_value)
  moreover from o l(1) have "length l \<le> 1"
    by (auto simp: one_axis_per_dim_def list_all_iff)
  ultimately show ?thesis using l(2) l'(2)
    by (cases l) auto
qed


subsection \<open>The splits of the mesh axes\<close>

lemma slice_split_axis:
  "owner s a \<noteq> Some d \<Longrightarrow>
   slice_dim d k g (split_axis s c a t) = split_axis s c a (slice_dim d k g t)"
  by (cases "owner s a") (simp_all add: split_axis_def slice_dim_commute)

lemma split_axis_commute:
  assumes v: "validate s" and o: "one_axis_per_dim s"
  shows "split_axis s c a (split_axis s c a' t) = split_axis s c a' (split_axis s c a t)"
proof (cases "a = a'")
  case True
  then show ?thesis by simp
next
  case False
  show ?thesis
  proof (cases "owner s a")
    case None
    then show ?thesis by (simp add: split_axis_def)
  next
    case (Some d)
    with False owner_inj [OF v o] have "owner s a' \<noteq> Some d" by blast
    from slice_split_axis [OF this] Some show ?thesis
      by (simp add: split_axis_def)
  qed
qed





lemma fold_concat_list: "fold f (concat xss) t = fold (\<lambda>xs. fold f xs) xss t"
  by (induction xss arbitrary: t) simp_all

lemma fold_filter_id:
  "\<forall>x \<in> set xs. \<not> P x \<longrightarrow> f x = id \<Longrightarrow> fold f xs t = fold f (filter P xs) t"
  by (induction xs arbitrary: t) auto

lemma fold_pull:
  assumes "\<And>x y t. f x (f y t) = f y (f x t)"
  shows "f x (fold f zs t) = fold f zs (f x t)"
  by (induction zs arbitrary: t) (simp_all add: assms)

lemma fold_distinct_perm:
  assumes comm: "\<And>x y t. f x (f y t) = f y (f x t)"
  shows "distinct xs \<Longrightarrow> distinct ys \<Longrightarrow> set xs = set ys \<Longrightarrow> fold f xs t = fold f ys t"
proof (induction xs arbitrary: ys t)
  case Nil
  then show ?case by simp
next
  case (Cons x xs)
  from Cons.prems(3) have "x \<in> set ys" by auto
  then obtain ys1 ys2 where ys: "ys = ys1 @ x # ys2"
    by (auto dest: split_list)
  with Cons.prems have "distinct (ys1 @ ys2)" and "set xs = set (ys1 @ ys2)" and "distinct xs"
    by auto
  from Cons.IH [OF this(3) this(1) this(2)]
  have "fold f xs (f x t) = fold f ys2 (fold f ys1 (f x t))" by simp
  also have "\<dots> = fold f ys2 (f x (fold f ys1 t))"
    by (simp add: fold_pull [of f, OF comm])
  finally show ?case using ys by simp
qed

text \<open>
  When every logical dimension is split over one mesh axis at most, the shard of a device
  is the global tensor split once per mesh axis, in whatever order.
\<close>

lemma shards_by_axis:
  assumes v: "validate s" and o: "one_axis_per_dim s"
  shows "shards s X c = fold (split_axis s c) [0 ..< length (mesh_shape (ShardingSpec.device_mesh s))] X"
proof -
  let ?ms = "mesh_shape (ShardingSpec.device_mesh s)"
  let ?axes = "concat (map snd (dim_partition_dict s))"
  note d = validate_parts [OF v]
  have entry: "fold (\<lambda>a. slice_dim (fst da) (c ! a) (?ms ! a)) (snd da) =
      fold (split_axis s c) (snd da)" if "da \<in> set (dim_partition_dict s)" for da
  proof -
    have "slice_dim (fst da) (c ! a) (?ms ! a) = split_axis s c a" if "a \<in> set (snd da)" for a
      using owner_of_entry [OF d(2), of "fst da" "snd da" a] that \<open>da \<in> set (dim_partition_dict s)\<close>
      by (simp add: split_axis_def fun_eq_iff)
    then show ?thesis
      by (auto intro!: fold_cong simp: fun_eq_iff)
  qed
  have "shards s X c = fold (\<lambda>da. fold (split_axis s c) (snd da)) (dim_partition_dict s) X"
    unfolding shards_def by (rule fold_cong) (simp_all add: entry)
  also have "\<dots> = fold (split_axis s c) ?axes X"
    by (simp add: fold_concat_list fold_map comp_def)
  also have "\<dots> = fold (split_axis s c) (filter (\<lambda>a. owner s a \<noteq> None) [0 ..< length ?ms]) X"
  proof -
    have "set (filter (\<lambda>a. owner s a \<noteq> None) [0 ..< length ?ms]) = set ?axes"
      using d(3) by (auto simp: owner_None)
    with d(2) show ?thesis
      by (intro fold_distinct_perm split_axis_commute [OF v o]) simp_all
  qed
  also have "\<dots> = fold (split_axis s c) [0 ..< length ?ms] X"
    by (rule fold_filter_id [symmetric]) (auto simp: split_axis_def fun_eq_iff)
  finally show ?thesis .
qed

subsection \<open>Gathering every sharded mesh axis\<close>


lemma primitive_for_from_replicated:
  "primitive_for (s\<lparr>dim_partition_dict := []\<rparr>) s a =
     (case owner s a of None \<Rightarrow> NoOp | Some d \<Rightarrow> Split d a)"
  by (simp add: primitive_for_def owner_def split: option.splits)




text \<open>
  Run on all devices, \<^verbatim>\<open>reshard\<close> makes the checks it makes on one device and raises
  what they raise; when they pass it returns, since the collectives do.
\<close>

lemma run_plan_reliable: "run_plan (\<lambda>p t. Inr (f p t)) ps t = Inr (fold f (filter (\<lambda>p. p \<noteq> NoOp) ps) t)"
  by (induction "\<lambda>p t. Inr (f p t) :: error + Tensor" ps t rule: run_plan.induct) simp_all

lemma spmd_reshard_checks:
  "spmd_reshard w c t src tgt =
     (case reshard (\<lambda>p t. Inr t) t src tgt of
        Inl e \<Rightarrow> Inl e
      | Inr u \<Rightarrow> Inr (run_world (mesh_shape (ShardingSpec.device_mesh src)) (plan src tgt)
                 (w(c := t)) c))"
  using run_plan_reliable [of "\<lambda>p t. t"] by (simp add: spmd_reshard_def reshard_def)


text \<open>
  The constructor and \<^verbatim>\<open>layout_convert\<close> under this planner return only for a
  layout whose spec passes validation. When that spec splits every logical dimension over
  one mesh axis at most, the local shard of the tensor that the constructor returns on the
  device at coordinate \<open>c\<close> is the shard that the spec gives that device.
\<close>

lemma layout_convert_spmd_valid:
  "layout_convert (spmd_reshard w c) new_layout self h = Return u self' \<Longrightarrow>
   validate (convert_layout_to_sharding_spec (h (dist_layout self')))"
  by (auto simp: layout_convert_def Let_def spmd_reshard_def split: sum.splits if_splits)

lemma splits_run:
  "run_world (mesh_shape (ShardingSpec.device_mesh s))
     (map (primitive_for (s\<lparr>dim_partition_dict := []\<rparr>) s) as) w c =
   fold (split_axis s c) as (w c)"
proof (induction as arbitrary: w)
  case Nil
  then show ?case by simp
next
  case (Cons a as)
  then show ?case
    by (cases "owner s a") (simp_all add: primitive_for_from_replicated split_axis_def)
qed

lemma split_shards:
  assumes v: "validate s" and o: "one_axis_per_dim s"
  shows "run_world (mesh_shape (ShardingSpec.device_mesh s))
           (plan (s\<lparr>dim_partition_dict := []\<rparr>) s) w c = shards s (w c) c"
  by (simp add: plan_def splits_run shards_by_axis [OF v o])

lemma DTensor_init_shards:
  assumes ret: "DTensor_init (spmd_reshard (\<lambda>c. X) c) X r h = Return self h'"
  shows "validate (convert_layout_to_sharding_spec (h' (dist_layout self)))"
    and "one_axis_per_dim (convert_layout_to_sharding_spec (h' (dist_layout self))) \<Longrightarrow>
         local_tensor self = shards (convert_layout_to_sharding_spec (h' (dist_layout self))) X c"
proof -
  define tgt where "tgt = convert_layout_to_sharding_spec (h' r)"
  define src where "src = construct_default_sharding_spec X (Layout.device_mesh (h' r))"
  from ret have h': "h' = post (DTensor_init (spmd_reshard (\<lambda>c. X) c) X r h)" by simp
  have mesh: "Layout.device_mesh (h' r) = Layout.device_mesh (h r)"
    unfolding h' by (simp add: DTensor_init_heap)
  from ret have r: "dist_layout self = r"
    and run: "spmd_reshard (\<lambda>c. X) c X src tgt = Inr (local_tensor self)"
    unfolding src_def tgt_def mesh h'
    by (auto simp: DTensor_init_def apply_layout_def Let_def DTensor_device_mesh_def
        split: sum.splits if_splits)
  from run have v: "validate tgt"
    and eq: "ShardingSpec.entire_shape src = ShardingSpec.entire_shape tgt"
      "ShardingSpec.device_mesh src = ShardingSpec.device_mesh tgt"
    by (simp_all add: spmd_reshard_def split: if_splits)
  from v show "validate (convert_layout_to_sharding_spec (h' (dist_layout self)))"
    by (simp add: r tgt_def)
  assume "one_axis_per_dim (convert_layout_to_sharding_spec (h' (dist_layout self)))"
  then have o: "one_axis_per_dim tgt" by (simp add: r tgt_def)
  from eq have src: "src = tgt\<lparr>dim_partition_dict := []\<rparr>"
    by (simp add: src_def construct_default_sharding_spec_def)
  have same: "(\<lambda>c. X)(c := X) = (\<lambda>c. X)" by (simp add: fun_eq_iff)
  from run v eq have "local_tensor self =
      run_world (mesh_shape (ShardingSpec.device_mesh src)) (plan src tgt) (\<lambda>c. X) c"
    by (simp add: spmd_reshard_def same split: if_splits)
  also have "\<dots> = shards tgt X c"
    unfolding src using split_shards [OF v o, of "\<lambda>c. X" c] by simp
  finally show "local_tensor self = shards (convert_layout_to_sharding_spec (h' (dist_layout self))) X c"
    by (simp add: r tgt_def)
qed




section \<open>Device and type migration\<close>

text \<open>
  Claim C7. \<^verbatim>\<open>to\<close> moves or casts the local shard only and refreshes the cached
  element type of the tensor object and the device recorded on its layout. The partition
  structure stays: the layout's partition dictionary, its mesh and its shape are the same
  after the call as before, the tensor still holds the same layout object, and no other
  layout is touched. When the library call raises, nothing has changed.
\<close>

theorem DTensor_to_frame:
  "(let r = dist_layout self;
        out = DTensor_to lib_to self h;
        self' = fst (post out);
        h' = snd (post out)
    in dist_layout self' = r \<and>
       DTensor.entire_shape self' = DTensor.entire_shape self \<and>
       dim_partition_dict (sharding_spec (h' r)) = dim_partition_dict (sharding_spec (h r)) \<and>
       Layout.device_mesh (h' r) = Layout.device_mesh (h r) \<and>
       Layout.entire_shape (h' r) = Layout.entire_shape (h r) \<and>
       convert_layout_to_sharding_spec (h' r) = convert_layout_to_sharding_spec (h r) \<and>
       (\<forall>r'. r' \<noteq> r \<longrightarrow> h' r' = h r') \<and>
       (case lib_to (local_tensor self) of
          Inr t \<Rightarrow> out = Return self' (self', h') \<and>
                   self' = self\<lparr>local_tensor := t, data_type := dtype t\<rparr> \<and>
                   h' r = (h r)\<lparr>device_type := device t\<rparr>
        | Inl e \<Rightarrow> out = Raise e (self, h)))"
  by (simp add: DTensor_to_def Let_def convert_layout_to_sharding_spec_def split: sum.splits)

theorem DTensor_to_frame_witness:
  "dim_partition_dict (sharding_spec
       (snd (post (DTensor_to sample_to sample_dtensor resolved_heap)) 0)) = [(0, [0])] \<and>
   Layout.device_mesh (snd (post (DTensor_to sample_to sample_dtensor resolved_heap)) 0)
     = sample_mesh \<and>
   Layout.entire_shape (snd (post (DTensor_to sample_to sample_dtensor resolved_heap)) 0)
     = Some [2, 2] \<and>
   device_type (snd (post (DTensor_to sample_to sample_dtensor resolved_heap)) 0) = CUDA 0 \<and>
   data_type (fst (post (DTensor_to sample_to sample_dtensor resolved_heap))) = Float16 \<and>
   snd (post (DTensor_to sample_to sample_dtensor resolved_heap)) 2 = resolved_heap 2"
proof -
  have "dist_layout sample_dtensor = 0"
    and "sample_to (local_tensor sample_dtensor) =
      Inr ((local_tensor sample_dtensor)\<lparr>dtype := Float16, device := CUDA 0\<rparr>)"
    by (simp_all add: sample_dtensor_def sample_to_def)
  then show ?thesis
    using DTensor_to_frame [where lib_to = sample_to and self = sample_dtensor
      and h = resolved_heap]
    by (simp add: Let_def sample_heap_facts sample_layout_def)
qed

section \<open>Deferred shape of a layout\<close>

text \<open>
  Claim C8. A layout whose shape is unset when a tensor is constructed with it gets the
  shape of the wrapped local tensor; a layout that has a shape keeps its own. From then on
  the layout carries that shape: a later construction with the same layout object and a
  later \<^verbatim>\<open>to\<close> leave it as it is (\<^verbatim>\<open>layout_convert\<close> and \<^verbatim>\<open>to_global\<close> do not
  write to layouts at all). Nothing else of the store changes in the construction.
\<close>

theorem DTensor_init_resolves_shape:
  "Layout.entire_shape (post (DTensor_init P local r h) r) =
     Some (case Layout.entire_shape (h r) of None \<Rightarrow> shape local | Some s \<Rightarrow> s) \<and>
   Layout.entire_shape
     (post (DTensor_init P' local' r (post (DTensor_init P local r h))) r) =
     Layout.entire_shape (post (DTensor_init P local r h) r) \<and>
   Layout.entire_shape (snd (post (DTensor_to lib_to self (post (DTensor_init P local r h)))) r) =
     Layout.entire_shape (post (DTensor_init P local r h) r) \<and>
   (\<forall>r'. r' \<noteq> r \<longrightarrow> post (DTensor_init P local r h) r' = h r') \<and>
   Layout.device_mesh (post (DTensor_init P local r h) r) = Layout.device_mesh (h r) \<and>
   sharding_spec (post (DTensor_init P local r h) r) = sharding_spec (h r) \<and>
   device_type (post (DTensor_init P local r h) r) = device_type (h r)"
  by (simp add: DTensor_init_heap DTensor_to_heap split: sum.splits)

theorem DTensor_init_resolves_shape_witness:
  "Layout.entire_shape (sample_heap 0) = None \<and>
   Layout.entire_shape (post (DTensor_init (reshard sample_ex) sample_tensor 0 sample_heap) 0)
     = Some [2, 2] \<and>
   Layout.entire_shape (sample_heap 2) = Some [2, 2] \<and>
   Layout.entire_shape (post (DTensor_init (reshard sample_ex) wide_tensor 2 sample_heap) 2)
     = Some [2, 2] \<and>
   post (DTensor_init (reshard sample_ex) sample_tensor 0 sample_heap) 2 = sample_heap 2"
  using DTensor_init_resolves_shape [where P = "reshard sample_ex" and local = sample_tensor
      and r = 0 and h = sample_heap]
    DTensor_init_resolves_shape [where P = "reshard sample_ex" and local = wide_tensor
      and r = 2 and h = sample_heap]
  by (simp add: sample_heap_facts sample_layout_def sample_tensor_def)

section \<open>Operation delegation unwraps and forwards\<close>

lemma filter_arg_not_DTensor: "\<not> is_DTensor (filter_arg v)"
  by (cases v) simp_all

lemma filter_arg_id: "\<not> is_DTensor v \<Longrightarrow> filter_arg v = v"
  by (cases v) simp_all

lemma leaves_tree_map: "leaves (tree_map filter_arg v) = map filter_arg (leaves v)"
proof (induction v)
  case (VList xs)
  then show ?case by (simp add: map_concat comp_def cong: map_cong)
next
  case (VTuple xs)
  then show ?case by (simp add: map_concat comp_def cong: map_cong)
next
  case (VDict kvs)
  then have "\<And>kv. kv \<in> set kvs \<Longrightarrow>
      leaves (tree_map filter_arg (snd kv)) = map filter_arg (leaves (snd kv))"
    by (metis snds.intros surjective_pairing)
  then show ?case by (simp add: map_concat comp_def cong: map_cong)
qed simp_all

lemma tree_map_id:
  "list_all (\<lambda>l. \<not> is_DTensor l) (leaves v) \<Longrightarrow> tree_map filter_arg v = v"
proof (induction v)
  case (VList xs)
  then show ?case by (simp add: list_all_iff map_idI)
next
  case (VTuple xs)
  then show ?case by (simp add: list_all_iff map_idI)
next
  case (VDict kvs)
  then have "\<And>kv. kv \<in> set kvs \<Longrightarrow> tree_map filter_arg (snd kv) = snd kv"
    by (simp add: list_all_iff) (metis snds.intros)
  then show ?case by (simp add: map_idI)
qed simp_all

lemma tree_map_free: "dtensor_free v \<Longrightarrow> tree_map filter_arg v = v"
  by (simp add: dtensor_free_def tree_map_id)

text \<open>
  Claim C3. For every function routed through \<^verbatim>\<open>__torch_function__\<close>, the call is
  forwarded to the library function with the same positional and keyword arguments, in
  which every distributed tensor (at the top level or inside a list, tuple or dictionary)
  is replaced by its local shard and every other leaf is left as it is; arguments without
  a distributed tensor are forwarded unmodified. What the library function returns is the
  result, of whatever type: nothing is inferred from the layouts and nothing is rewrapped.
\<close>

theorem torch_function_delegates:
  "(let kw = (case kwargs of None \<Rightarrow> [] | Some kw \<Rightarrow> kw);
        args' = map (tree_map filter_arg) args;
        kwargs' = map (\<lambda>kv. (fst kv, tree_map filter_arg (snd kv))) kw
    in torch_function func types args kwargs = func args' kwargs' \<and>
       map leaves args' = map (\<lambda>v. map filter_arg (leaves v)) args \<and>
       map (\<lambda>kv. (fst kv, leaves (snd kv))) kwargs' =
         map (\<lambda>kv. (fst kv, map filter_arg (leaves (snd kv)))) kw \<and>
       list_all dtensor_free (args' @ map snd kwargs') \<and>
       (list_all dtensor_free (args @ map snd kw) \<longrightarrow> args' = args \<and> kwargs' = kw)) \<and>
   filter_arg (VDTensor d) = VTensor (local_tensor d) \<and>
   (\<not> is_DTensor leaf \<longrightarrow> filter_arg leaf = leaf)"
proof -
  define kw where "kw = (case kwargs of None \<Rightarrow> [] | Some kw \<Rightarrow> kw)"
  define args' where "args' = map (tree_map filter_arg) args"
  define kwargs' where "kwargs' = map (\<lambda>kv. (fst kv, tree_map filter_arg (snd kv))) kw"
  have call: "torch_function func types args kwargs = func args' kwargs'"
    by (simp add: torch_function_def Let_def kw_def args'_def kwargs'_def)
  have pos: "map leaves args' = map (\<lambda>v. map filter_arg (leaves v)) args"
    by (simp add: args'_def leaves_tree_map)
  have key: "map (\<lambda>kv. (fst kv, leaves (snd kv))) kwargs' =
         map (\<lambda>kv. (fst kv, map filter_arg (leaves (snd kv)))) kw"
    by (simp add: kwargs'_def leaves_tree_map)
  have free: "list_all dtensor_free (args' @ map snd kwargs')"
    by (auto simp: args'_def kwargs'_def dtensor_free_def list_all_iff leaves_tree_map
        filter_arg_not_DTensor)
  have same: "args' = args \<and> kwargs' = kw" if "list_all dtensor_free (args @ map snd kw)"
  proof
    from that have "\<And>v. v \<in> set args \<Longrightarrow> tree_map filter_arg v = v"
      by (simp add: list_all_iff tree_map_free)
    then show "args' = args"
      by (simp add: args'_def map_idI)
    from that have "\<And>kv. kv \<in> set kw \<Longrightarrow> tree_map filter_arg (snd kv) = snd kv"
      by (simp add: list_all_iff tree_map_free)
    then show "kwargs' = kw"
      by (simp add: kwargs'_def map_idI)
  qed
  from call pos key free same show ?thesis
    unfolding Let_def kw_def [symmetric] args'_def [symmetric] kwargs'_def [symmetric]
    by (simp add: filter_arg_id)
qed

theorem torch_function_delegates_witness:
  "torch_function (\<lambda>args kwargs. (args, kwargs)) ()
       [VDTensor sample_dtensor, VInt 3, VList [VDTensor sample_dtensor, VNone]]
       (Some [(''other'', VDTensor sample_dtensor)])
     = ([VTensor (local_tensor sample_dtensor), VInt 3,
         VList [VTensor (local_tensor sample_dtensor), VNone]],
        [(''other'', VTensor (local_tensor sample_dtensor))]) \<and>
   torch_function (\<lambda>args kwargs. (args, kwargs)) () [VTensor sample_tensor, VInt 3] None
     = ([VTensor sample_tensor, VInt 3], [])"
  using torch_function_delegates [where func = "\<lambda>args kwargs. (args, kwargs)" and types = "()"
      and args = "[VDTensor sample_dtensor, VInt 3, VList [VDTensor sample_dtensor, VNone]]"
      and kwargs = "Some [(''other'', VDTensor sample_dtensor)]"]
    torch_function_delegates [where func = "\<lambda>args kwargs. (args, kwargs)" and types = "()"
      and args = "[VTensor sample_tensor, VInt 3]" and kwargs = None]
  by (simp add: Let_def dtensor_free_def)

section \<open>What module distribution does\<close>

text \<open>
  \<^verbatim>\<open>Parameter\<close> never hands back a distributed tensor: given one, it raises, because
  \<^verbatim>\<open>detach\<close> comes back from \<^verbatim>\<open>__torch_function__\<close> as a plain tensor.
\<close>

lemma DTensor_detach_plain: "DTensor_detach d = VTensor (local_tensor d)"
  by (simp add: DTensor_detach_def torch_function_def)

lemma Parameter_plain: "Parameter v = Inr q \<Longrightarrow> \<not> isinstance_DTensor q"
  by (cases v) (auto simp: DTensor_detach_plain split: if_splits)

text \<open>
  A parameter object that is registered under two names is yielded once, under the first
  of them, and only that name gets the new object.
\<close>

lemma named_parameters_tied:
  "named_parameters tied_module = [(''weight'', Param sample_tensor)] \<and>
   distribute_module (Some (\<lambda>name t. Inr (VTensor wide_tensor))) tied_module =
     Return (Module [(''weight'', Some (2, Param wide_tensor)),
                     (''alias'', Some (1, Param sample_tensor))] [])
            (Module [(''weight'', Some (2, Param wide_tensor)),
                     (''alias'', Some (1, Param sample_tensor))] [])"
  by (simp add: distribute_module_def named_parameters_def tied_module_def join_name_def
      new_parameter_def call_partition_fn_def Module_setattr_def register_parameter_def
      hasattr_def new_ident_def wide_tensor_def)

text \<open>
  Claim C2. The docstring of \<^verbatim>\<open>distribute_module\<close> (line 130) and section 4.4 have
  every parameter that is not a distributed tensor converted to one. The code hands the
  object that the partition function returns to \<^verbatim>\<open>torch.nn.Parameter\<close> (line 138) and
  assigns the result, and that result is never a distributed tensor, whatever the
  partition function returns: \<^verbatim>\<open>Parameter\<close> raises \<^verbatim>\<open>RuntimeError\<close> for a
  distributed tensor and \<^verbatim>\<open>AttributeError\<close> for a layout. On \<open>mixed_module\<close>, whose
  parameter \<^verbatim>\<open>weight\<close> is a plain floating-point tensor: a partition function that
  returns a layout makes the call raise \<^verbatim>\<open>AttributeError\<close>, one that returns the
  distributed tensor built from the value and layout 2 makes it raise
  \<^verbatim>\<open>RuntimeError\<close>, both with the module as it was, and one that returns the tensor
  it was given makes the call return with \<^verbatim>\<open>weight\<close> a new plain parameter. The
  parameter \<^verbatim>\<open>scale\<close>, a distributed tensor already, is passed over each time.
\<close>

theorem distribute_module_builds_no_DTensor:
  "new_parameter partition_fn name t \<noteq> Inr (DParam d) \<and>
   Parameter (VDTensor d) = Inl RuntimeError \<and>
   Parameter (VLayout r) = Inl AttributeError \<and>
   named_parameters mixed_module =
     [(''scale'', DParam sample_dtensor), (''weight'', Param sample_tensor)] \<and>
   distribute_module (Some (\<lambda>name t. Inr (VLayout 2))) mixed_module =
     Raise AttributeError mixed_module \<and>
   sample_partition_fn ''weight'' sample_tensor = Inr (VDTensor (sample_dtensor\<lparr>dist_layout := 2\<rparr>)) \<and>
   distribute_module (Some sample_partition_fn) mixed_module = Raise RuntimeError mixed_module \<and>
   distribute_module (Some (\<lambda>name t. Inr (VTensor t))) mixed_module =
     Return (Module [(''scale'', Some (1, DParam sample_dtensor)),
                     (''weight'', Some (3, Param sample_tensor)), (''bias'', None)] [])
            (Module [(''scale'', Some (1, DParam sample_dtensor)),
                     (''weight'', Some (3, Param sample_tensor)), (''bias'', None)] [])"
proof -
  have never: "new_parameter partition_fn name t \<noteq> Inr (DParam d)"
  proof
    assume "new_parameter partition_fn name t = Inr (DParam d)"
    then obtain v where "Parameter v = Inr (DParam d)"
      by (auto simp: new_parameter_def split: sum.splits)
    from Parameter_plain [OF this] show False by simp
  qed
  have float: "is_floating_point (dtype sample_tensor)"
    by (simp add: sample_tensor_def)
  have names: "named_parameters mixed_module =
     [(''scale'', DParam sample_dtensor), (''weight'', Param sample_tensor)]"
    by (simp add: named_parameters_def mixed_module_def join_name_def)
  have layout: "distribute_module (Some (\<lambda>name t. Inr (VLayout 2))) mixed_module =
     Raise AttributeError mixed_module"
    by (simp add: distribute_module_def names new_parameter_def call_partition_fn_def)
  have dtensor: "distribute_module (Some sample_partition_fn) mixed_module =
     Raise RuntimeError mixed_module"
    by (simp add: distribute_module_def names new_parameter_def call_partition_fn_def
        sample_partition DTensor_detach_plain)
  have plain: "distribute_module (Some (\<lambda>name t. Inr (VTensor t))) mixed_module =
     Return (Module [(''scale'', Some (1, DParam sample_dtensor)),
                     (''weight'', Some (3, Param sample_tensor)), (''bias'', None)] [])
            (Module [(''scale'', Some (1, DParam sample_dtensor)),
                     (''weight'', Some (3, Param sample_tensor)), (''bias'', None)] [])"
    by (simp add: distribute_module_def names new_parameter_def call_partition_fn_def float)
       (simp add: mixed_module_def Module_setattr_def register_parameter_def hasattr_def
         new_ident_def join_name_def)
  from never names layout dtensor plain show ?thesis
    by (simp add: DTensor_detach_plain sample_partition)
qed

text \<open>
  Claim C9. \<^verbatim>\<open>named_parameters\<close> yields the parameter of a child under a dotted
  name, and \<^verbatim>\<open>distribute_module\<close> hands that name to \<^verbatim>\<open>setattr\<close> on the root
  (line 138). An assignment of a parameter under a name with a dot raises
  \<^verbatim>\<open>KeyError\<close> in \<^verbatim>\<open>register_parameter\<close> and stores nothing. On \<open>nested_module\<close>,
  whose only parameter belongs to the child \<^verbatim>\<open>sub\<close>, the parameter is yielded as
  \<^verbatim>\<open>sub.weight\<close>; with a partition function that returns the plain tensor it was
  given the call raises \<^verbatim>\<open>KeyError\<close>, the root has no attribute \<^verbatim>\<open>sub.weight\<close>
  afterwards, and the child holds the parameter it had. The docstring (line 130) has all
  the parameters in the module converted; the parameter of the child is neither converted
  nor is anything attached to the root. With a partition function that returns a
  distributed tensor the same call raises \<^verbatim>\<open>RuntimeError\<close>, and without a partition
  function \<^verbatim>\<open>TypeError\<close>, before any assignment.
\<close>

theorem distribute_module_dotted_name_raises:
  "Module_setattr m (pre @ ''.'' @ k) q =
     Raise KeyError (Module (parameters m) (AList.delete (pre @ ''.'' @ k) (modules m))) \<and>
   named_parameters nested_module = [(''sub.weight'', Param sample_tensor)] \<and>
   distribute_module (Some (\<lambda>name t. Inr (VTensor t))) nested_module =
     Raise KeyError nested_module \<and>
   \<not> hasattr (post (distribute_module (Some (\<lambda>name t. Inr (VTensor t))) nested_module))
       ''sub.weight'' \<and>
   modules (post (distribute_module (Some (\<lambda>name t. Inr (VTensor t))) nested_module)) =
     [(''sub'', Module [(''weight'', Some (1, Param sample_tensor))] [])] \<and>
   distribute_module (Some sample_partition_fn) nested_module = Raise RuntimeError nested_module \<and>
   distribute_module None nested_module = Raise TypeError nested_module"
proof -
  have dotted: "Module_setattr m (pre @ ''.'' @ k) q =
     Raise KeyError (Module (parameters m) (AList.delete (pre @ ''.'' @ k) (modules m)))"
    by (simp add: Module_setattr_def register_parameter_def)
  have float: "is_floating_point (dtype sample_tensor)"
    by (simp add: sample_tensor_def)
  have names: "named_parameters nested_module = [(''sub.weight'', Param sample_tensor)]"
    by (simp add: named_parameters_def nested_module_def join_name_def)
  have plain: "distribute_module (Some (\<lambda>name t. Inr (VTensor t))) nested_module =
     Raise KeyError nested_module"
    by (simp add: distribute_module_def names new_parameter_def call_partition_fn_def float)
       (simp add: nested_module_def Module_setattr_def register_parameter_def)
  have dtensor: "distribute_module (Some sample_partition_fn) nested_module =
     Raise RuntimeError nested_module"
    by (simp add: distribute_module_def names new_parameter_def call_partition_fn_def
        sample_partition DTensor_detach_plain)
  have none: "distribute_module None nested_module = Raise TypeError nested_module"
    by (simp add: distribute_module_def names new_parameter_def call_partition_fn_def)
  from dotted names plain dtensor none show ?thesis
    by (simp add: nested_module_def hasattr_def)
qed

text \<open>The loop without a partition function.\<close>

lemma distribute_loop_None:
  "distribute_loop None xs m =
     (if list_all (\<lambda>np. isinstance_DTensor (snd np)) xs then Return () m else Raise TypeError m)"
  by (induction "None :: partition_fn option" xs m rule: distribute_loop.induct)
     (simp_all add: new_parameter_def call_partition_fn_def)

text \<open>
  Claim C10. With \<^verbatim>\<open>partition_fn\<close> left at \<^verbatim>\<open>None\<close>, a module with at least one
  parameter that is not a distributed tensor makes \<^verbatim>\<open>distribute_module\<close> raise
  \<^verbatim>\<open>TypeError\<close> at the first such parameter, with the module as it was: no default
  partitioning takes place. Parameters that are distributed tensors are passed over, so a
  module with no other parameter is returned unchanged.
\<close>

theorem distribute_module_without_partition_fn:
  "distribute_module None m =
     (if list_all (\<lambda>np. isinstance_DTensor (snd np)) (named_parameters m)
      then Return m m else Raise TypeError m)"
  by (simp add: distribute_module_def distribute_loop_None)

theorem distribute_module_without_partition_fn_witness:
  "distribute_module None mixed_module = Raise TypeError mixed_module \<and>
   distribute_module None dtensor_module = Return dtensor_module dtensor_module"
  using distribute_module_without_partition_fn [of mixed_module]
    distribute_module_without_partition_fn [of dtensor_module]
  by (simp add: named_parameters_def mixed_module_def dtensor_module_def join_name_def)

end
